theory Spec2Isabelle
  imports Complex_Main "HOL-Library.AList"
begin

section \<open>The HAR dump script of mitmproxy: \<^verbatim>\<open>examples/har_dump.py\<close>\<close>

text \<open>
  The script is three lifecycle hooks (\<^verbatim>\<open>start\<close>, \<^verbatim>\<open>response\<close>, \<^verbatim>\<open>done\<close>) around one
  module-level dictionary \<^verbatim>\<open>HAR\<close>, and the helpers \<^verbatim>\<open>format_datetime\<close>,
  \<^verbatim>\<open>format_cookies\<close>, \<^verbatim>\<open>format_request_cookies\<close>, \<^verbatim>\<open>format_response_cookies\<close> and
  \<^verbatim>\<open>name_value\<close>.  The embedding below follows the file top to bottom.

  Conventions.
  \<^item> A Python value that ends up in \<^verbatim>\<open>HAR\<close> is a \<open>pyval\<close>.  A \<^verbatim>\<open>dict\<close> is an association
    list with one pair per key, \<^verbatim>\<open>d[k] = v\<close> is \<open>AList.update k v d\<close> and \<^verbatim>\<open>d[k]\<close> is
    \<open>map_of d k\<close> (\<open>None\<close> is the \<^verbatim>\<open>KeyError\<close>).  The pairs stand in the order the keys
    were stored; the order in which Python walks a \<^verbatim>\<open>dict\<close> shows only in the text that
    \<^verbatim>\<open>json.dumps\<close> and \<^verbatim>\<open>pprint.pformat\<close> produce, and both are parameters here.
  \<^item> \<^verbatim>\<open>str\<close> and \<^verbatim>\<open>bytes\<close> are both \<open>string\<close>, as under Python 2.7, the interpreter on
    which line 124 (\<^verbatim>\<open>f.write\<close> of the result of \<^verbatim>\<open>json.dumps\<close> to a file opened \<^verbatim>\<open>"wb"\<close>)
    is well typed.
  \<^item> The timestamps of a flow are Python floats; they are idealised as \<open>real\<close>, so the
    rounding of the two float operations of line 61 to 67 is not modelled, and neither
    are infinities and NaN.
  \<^item> A helper that can raise returns \<open>error + 'a\<close>.  A hook works on the module state and
    returns the exception it raised, if any, with the state it left.
  \<^item> Everything the script calls but does not define (\<^verbatim>\<open>netlib\<close>, \<^verbatim>\<open>datetime\<close>, \<^verbatim>\<open>pytz\<close>,
    \<^verbatim>\<open>json\<close>, \<^verbatim>\<open>pprint\<close>) is a field of the record \<open>host\<close>, a parameter of the model.
    These library functions are taken to return: an exception raised inside one of them
    (\<^verbatim>\<open>json.dumps\<close> on a value it cannot encode, say) is not modelled.
\<close>

subsection \<open>Python values and exceptions\<close>

datatype pyval =
    PStr string
  | PInt int
  | PBool bool
  | PList "pyval list"
  | PDict "(string \<times> pyval) list"

type_synonym pydict = "(string \<times> pyval) list"

text \<open>The exceptions the script can raise; a \<^verbatim>\<open>ValueError\<close> carries its message.\<close>

datatype error = ValueError string | KeyError | IndexError | TypeError | AttributeError

subsection \<open>What the host proxy hands to the hooks\<close>

text \<open>
  The argument of \<^verbatim>\<open>name_value\<close> is duck typed: the function asks only whether the object
  has an attribute \<^verbatim>\<open>fields\<close> and whether it has a method \<^verbatim>\<open>items\<close>.  \<open>None\<close> is an attribute
  the object does not have.  \<open>truthy\<close> is the object's truth value, read by
  \<^verbatim>\<open>flow.request.query or {}\<close>.
\<close>

record nv_obj =
  fields_attr :: "(string \<times> string) list option"
  items_method :: "(string \<times> string) list option"
  truthy :: bool

text \<open>The empty dictionary literal \<^verbatim>\<open>{}\<close>: no \<^verbatim>\<open>fields\<close>, \<^verbatim>\<open>items()\<close> is empty, and it is false.\<close>

definition empty_dict :: nv_obj where
  "empty_dict = \<lparr>fields_attr = None, items_method = Some [], truthy = False\<rparr>"

type_synonym attrs = "string \<rightharpoonup> string"

type_synonym cookie = "string \<times> string \<times> attrs"

text \<open>The second component \<^verbatim>\<open>c[1]\<close> of a response cookie field, with \<^verbatim>\<open>.value\<close> and \<^verbatim>\<open>.attrs\<close>.\<close>

record cookie_obj =
  cvalue :: string
  cattrs :: attrs

text \<open>
  \<^verbatim>\<open>flow.request\<close> and \<^verbatim>\<open>flow.response\<close> share the fields of an HTTP message.
  \<open>req_method\<close> is \<^verbatim>\<open>flow.request.method\<close>, \<open>req_cookies_fields\<close> is
  \<^verbatim>\<open>flow.request.cookies.fields\<close> and \<open>resp_cookies_fields\<close> is
  \<^verbatim>\<open>flow.response.cookies.fields\<close>; \<open>query\<close> is \<open>None\<close> for Python's \<^verbatim>\<open>None\<close>.
\<close>

record message =
  timestamp_start :: real
  timestamp_end :: real
  http_version :: string
  headers :: nv_obj
  content :: string

record request = message +
  req_method :: string
  url :: string
  query :: "nv_obj option"
  req_cookies_fields :: "(string \<times> string) list"

record response = message +
  status_code :: int
  reason :: string
  resp_cookies_fields :: "(string \<times> cookie_obj) list"

record flow =
  flow_request :: request
  flow_response :: response

text \<open>A \<^verbatim>\<open>datetime\<close>: the date and time it shows, in seconds since 1970-01-01 00:00 of the
  same clock, and its \<^verbatim>\<open>tzinfo\<close>.\<close>

record datetime =
  shown :: real
  tzinfo :: "string option"

text \<open>
  The library, in the order of the fields: \<^verbatim>\<open>netlib.version.MITMPROXY\<close>;
  \<^verbatim>\<open>netlib.http.cookies.group_cookies\<close> and \<^verbatim>\<open>get_expiration_ts\<close> of the same module;
  \<^verbatim>\<open>str(headers)\<close> and \<^verbatim>\<open>headers.get(name, default)\<close> of a header collection; the offset of
  local time from UTC at a given moment, for \<^verbatim>\<open>datetime.fromtimestamp\<close>; \<^verbatim>\<open>dt.isoformat()\<close>;
  \<^verbatim>\<open>pprint.pformat(d)\<close>; and \<^verbatim>\<open>json.dumps(d, indent=n)\<close>.
\<close>

record host =
  MITMPROXY :: string
  group_cookies :: "(string \<times> string) list \<Rightarrow> cookie list"
  get_expiration_ts :: "attrs \<Rightarrow> int option"
  headers_str :: "nv_obj \<Rightarrow> string"
  headers_get :: "nv_obj \<Rightarrow> string \<Rightarrow> string \<Rightarrow> string"
  local_offset :: "real \<Rightarrow> real"
  isoformat :: "datetime \<Rightarrow> string"
  pformat :: "pydict \<Rightarrow> string"
  json_dumps :: "pydict \<Rightarrow> nat \<Rightarrow> string"

subsection \<open>\<^verbatim>\<open>start\<close> (lines 21 to 42)\<close>

text \<open>\<^verbatim>\<open>HAR = {}\<close> at line 18.\<close>

definition HAR_initial :: pydict where
  "HAR_initial = []"

text \<open>The dictionary literal of lines 32 to 42.\<close>

definition start_document :: "host \<Rightarrow> pydict" where
  "start_document L =
     [(''log'', PDict
        [(''version'', PStr ''1.2''),
         (''creator'', PDict
            [(''name'', PStr ''mitmproxy har_dump''),
             (''version'', PStr ''0.1''),
             (''comment'', PStr (''mitmproxy version '' @ MITMPROXY L))]),
         (''entries'', PList [])])]"

text \<open>\<^verbatim>\<open>d.update(e)\<close>: every key of \<open>e\<close> is stored in \<open>d\<close>, in the order of \<open>e\<close>.\<close>

definition dict_update :: "pydict \<Rightarrow> pydict \<Rightarrow> pydict" where
  "dict_update d e = fold (\<lambda>(k, v) acc. AList.update k v acc) e d"

text \<open>The message of lines 27 to 29; \<open>CHR 0x22\<close> is the double quote.\<close>

definition usage :: string where
  "usage = ''Usage: -s '' @ [CHR 0x22] @ ''har_dump.py filename'' @ [CHR 0x22] @ '' ''
     @ ''(- will output to stdout, filenames ending with .zhar ''
     @ ''will result in compressed har)''"

text \<open>\<open>argv\<close> is \<^verbatim>\<open>sys.argv\<close>: the script's own name, then the arguments it was given.\<close>

definition start :: "host \<Rightarrow> string list \<Rightarrow> pydict \<Rightarrow> error option \<times> pydict" where
  "start L argv HAR =
     (if length argv \<noteq> 2 then (Some (ValueError usage), HAR)
      else (None, dict_update HAR (start_document L)))"

subsection \<open>\<^verbatim>\<open>name_value\<close> (lines 169 to 183)\<close>

text \<open>The local variable \<^verbatim>\<open>items\<close> after lines 174 to 178.\<close>

definition nv_items :: "nv_obj \<Rightarrow> (string \<times> string) list" where
  "nv_items obj =
     (case fields_attr obj of
        Some fs \<Rightarrow> fs
      | None \<Rightarrow> (case items_method obj of Some its \<Rightarrow> its | None \<Rightarrow> []))"

definition name_value :: "nv_obj \<Rightarrow> pyval" where
  "name_value obj =
     (let items = nv_items obj in
      if items \<noteq> [] then PList (map (\<lambda>(k, v). PDict [(''name'', PStr k), (''value'', PStr v)]) items)
      else PStr '''')"

subsection \<open>\<^verbatim>\<open>format_datetime\<close> (lines 129 and 130)\<close>

text \<open>
  \<^verbatim>\<open>datetime.utcfromtimestamp(t)\<close> shows the UTC time of \<open>t\<close>, \<^verbatim>\<open>datetime.fromtimestamp(t)\<close> the
  local time of \<open>t\<close>; neither has a \<^verbatim>\<open>tzinfo\<close>.  \<^verbatim>\<open>dt.replace(tzinfo=...)\<close> sets the
  \<^verbatim>\<open>tzinfo\<close> and keeps what is shown.
\<close>

definition utcfromtimestamp :: "real \<Rightarrow> datetime" where
  "utcfromtimestamp t = \<lparr>shown = t, tzinfo = None\<rparr>"

definition fromtimestamp :: "host \<Rightarrow> real \<Rightarrow> datetime" where
  "fromtimestamp L t = \<lparr>shown = t + local_offset L t, tzinfo = None\<rparr>"

definition format_datetime :: "host \<Rightarrow> datetime \<Rightarrow> string" where
  "format_datetime L dt = isoformat L (dt\<lparr>tzinfo := Some ''UTC''\<rparr>)"

subsection \<open>\<^verbatim>\<open>format_cookies\<close> (lines 133 to 158)\<close>

text \<open>
  The script imports the module \<^verbatim>\<open>netlib.http.cookies\<close> under the name \<^verbatim>\<open>cookies\<close> (line 16),
  and \<^verbatim>\<open>format_cookies\<close> names its parameter \<^verbatim>\<open>cookies\<close> too (line 133).  Inside the function
  the name is the parameter, so \<^verbatim>\<open>cookies.get_expiration_ts\<close> at line 152 is an attribute
  lookup on the iterable of triples the caller passed (a list from
  \<^verbatim>\<open>format_request_cookies\<close>, a generator from \<^verbatim>\<open>format_response_cookies\<close>), which has no
  such attribute.  \<open>cookies_name\<close> is what the name \<^verbatim>\<open>cookies\<close> can stand for.
\<close>

datatype cookies_name =
    Module_cookies
  | Parameter_cookies "cookie list"

fun getattr_get_expiration_ts :: "host \<Rightarrow> cookies_name \<Rightarrow> error + (attrs \<Rightarrow> int option)" where
  "getattr_get_expiration_ts L Module_cookies = Inr (get_expiration_ts L)"
| "getattr_get_expiration_ts L (Parameter_cookies cs) = Inl AttributeError"

text \<open>Lines 143 to 145: \<^verbatim>\<open>path\<close>, \<^verbatim>\<open>domain\<close> and \<^verbatim>\<open>comment\<close> are copied when present.\<close>

definition copy_attrs :: "attrs \<Rightarrow> pydict \<Rightarrow> pydict" where
  "copy_attrs a cookie_har =
     fold (\<lambda>key d. case a key of Some v \<Rightarrow> AList.update key (PStr v) d | None \<Rightarrow> d)
       [''path'', ''domain'', ''comment''] cookie_har"

text \<open>Lines 148 and 149: \<^verbatim>\<open>cookie_har[key] = bool(key in attrs)\<close>.\<close>

definition bool_attrs :: "attrs \<Rightarrow> pydict \<Rightarrow> pydict" where
  "bool_attrs a cookie_har =
     fold (\<lambda>key d. AList.update key (PBool (key \<in> dom a)) d) [''httpOnly'', ''secure''] cookie_har"

text \<open>
  Lines 152 to 154, with the function found under the name \<^verbatim>\<open>cookies\<close>:
  \<^verbatim>\<open>if expire_ts:\<close> is false for \<^verbatim>\<open>None\<close> and for the timestamp 0.
\<close>

definition set_expires :: "host \<Rightarrow> (attrs \<Rightarrow> int option) \<Rightarrow> attrs \<Rightarrow> pydict \<Rightarrow> pydict" where
  "set_expires L get_ts a cookie_har =
     (case get_ts a of
        None \<Rightarrow> cookie_har
      | Some expire_ts \<Rightarrow>
          if expire_ts \<noteq> 0
          then AList.update ''expires''
                 (PStr (format_datetime L (fromtimestamp L (of_int expire_ts)))) cookie_har
          else cookie_har)"

text \<open>One pass through the loop body, lines 137 to 156, for one triple.\<close>

fun cookie_har_of :: "host \<Rightarrow> cookies_name \<Rightarrow> cookie \<Rightarrow> error + pyval" where
  "cookie_har_of L cookies (name, val, a) =
     (let cookie_har = [(''name'', PStr name), (''value'', PStr val)];
          cookie_har = copy_attrs a cookie_har;
          cookie_har = bool_attrs a cookie_har
      in case getattr_get_expiration_ts L cookies of
           Inl e \<Rightarrow> Inl e
         | Inr get_ts \<Rightarrow> Inr (PDict (set_expires L get_ts a cookie_har)))"

text \<open>The loop of line 136; the last argument is \<^verbatim>\<open>cookie_list\<close>.\<close>

fun format_cookies_loop ::
  "host \<Rightarrow> cookies_name \<Rightarrow> cookie list \<Rightarrow> pyval list \<Rightarrow> error + pyval list" where
  "format_cookies_loop L cookies [] cookie_list = Inr cookie_list"
| "format_cookies_loop L cookies (c # cs) cookie_list =
     (case cookie_har_of L cookies c of
        Inl e \<Rightarrow> Inl e
      | Inr cookie_har \<Rightarrow> format_cookies_loop L cookies cs (cookie_list @ [cookie_har]))"

text \<open>In the body the name \<^verbatim>\<open>cookies\<close> is the parameter.\<close>

definition format_cookies :: "host \<Rightarrow> cookie list \<Rightarrow> error + pyval list" where
  "format_cookies L cookies = format_cookies_loop L (Parameter_cookies cookies) cookies []"

text \<open>Lines 161 to 166; \<open>flds\<close> is \<^verbatim>\<open>fields\<close>.  Here \<^verbatim>\<open>cookies\<close> is the module.\<close>

definition format_request_cookies :: "host \<Rightarrow> (string \<times> string) list \<Rightarrow> error + pyval list" where
  "format_request_cookies L flds = format_cookies L (group_cookies L flds)"

definition format_response_cookies :: "host \<Rightarrow> (string \<times> cookie_obj) list \<Rightarrow> error + pyval list" where
  "format_response_cookies L flds =
     format_cookies L (map (\<lambda>c. (fst c, cvalue (snd c), cattrs (snd c))) flds)"

subsection \<open>\<^verbatim>\<open>response\<close> (lines 45 to 110)\<close>

text \<open>\<^verbatim>\<open>int(x)\<close> of a float: the fraction is dropped, towards zero.\<close>

definition py_int :: "real \<Rightarrow> int" where
  "py_int x = (if 0 \<le> x then \<lfloor>x\<rfloor> else \<lceil>x\<rceil>)"

definition timings_raw :: "flow \<Rightarrow> (string \<times> real) list" where
  "timings_raw f =
     [(''send'', timestamp_end (flow_request f) - timestamp_start (flow_request f)),
      (''receive'', timestamp_end (flow_response f) - timestamp_start (flow_response f)),
      (''wait'', timestamp_start (flow_response f) - timestamp_end (flow_request f))]"

definition timings :: "flow \<Rightarrow> (string \<times> int) list" where
  "timings f = map (\<lambda>(k, v). (k, py_int (1000 * v))) (timings_raw f)"

definition full_time :: "flow \<Rightarrow> int" where
  "full_time f = sum_list (filter (\<lambda>v. v > -1) (map snd (timings f)))"

definition started_date_time :: "host \<Rightarrow> flow \<Rightarrow> string" where
  "started_date_time L f = format_datetime L (utcfromtimestamp (timestamp_start (flow_request f)))"

definition response_body_size :: "flow \<Rightarrow> int" where
  "response_body_size f = int (length (content (flow_response f)))"

definition response_body_decoded_size :: "flow \<Rightarrow> int" where
  "response_body_decoded_size f = int (length (content (flow_response f)))"

definition response_body_compression :: "flow \<Rightarrow> int" where
  "response_body_compression f = response_body_decoded_size f - response_body_size f"

text \<open>\<^verbatim>\<open>flow.request.query or {}\<close>.\<close>

definition query_or_empty :: "nv_obj option \<Rightarrow> nv_obj" where
  "query_or_empty q =
     (case q of None \<Rightarrow> empty_dict | Some obj \<Rightarrow> if truthy obj then obj else empty_dict)"

text \<open>The value of \<^verbatim>\<open>"request"\<close>, lines 83 to 92.\<close>

definition request_block :: "host \<Rightarrow> flow \<Rightarrow> error + pydict" where
  "request_block L f =
     (let r = flow_request f in
      case format_request_cookies L (req_cookies_fields r) of
        Inl e \<Rightarrow> Inl e
      | Inr cs \<Rightarrow> Inr
          [(''method'', PStr (req_method r)),
           (''url'', PStr (url r)),
           (''httpVersion'', PStr (http_version r)),
           (''cookies'', PList cs),
           (''headers'', name_value (headers r)),
           (''queryString'', name_value (query_or_empty (query r))),
           (''headersSize'', PInt (int (length (headers_str L (headers r))))),
           (''bodySize'', PInt (int (length (content r))))])"

text \<open>The value of \<^verbatim>\<open>"response"\<close>, lines 93 to 107.\<close>

definition response_block :: "host \<Rightarrow> flow \<Rightarrow> error + pydict" where
  "response_block L f =
     (let r = flow_response f in
      case format_response_cookies L (resp_cookies_fields r) of
        Inl e \<Rightarrow> Inl e
      | Inr cs \<Rightarrow> Inr
          [(''status'', PInt (status_code r)),
           (''statusText'', PStr (reason r)),
           (''httpVersion'', PStr (http_version r)),
           (''cookies'', PList cs),
           (''headers'', name_value (headers r)),
           (''content'', PDict
              [(''size'', PInt (response_body_size f)),
               (''compression'', PInt (response_body_compression f)),
               (''mimeType'', PStr (headers_get L (headers r) ''Content-Type'' ''''))]),
           (''redirectURL'', PStr (headers_get L (headers r) ''Location'' '''')),
           (''headersSize'', PInt (int (length (headers_str L (headers r))))),
           (''bodySize'', PInt (response_body_size f))])"

text \<open>The dictionary literal of lines 80 to 110; its items are evaluated in order.\<close>

definition entry :: "host \<Rightarrow> flow \<Rightarrow> error + pydict" where
  "entry L f =
     (case request_block L f of
        Inl e \<Rightarrow> Inl e
      | Inr req \<Rightarrow>
          (case response_block L f of
             Inl e \<Rightarrow> Inl e
           | Inr resp \<Rightarrow> Inr
               [(''startedDateTime'', PStr (started_date_time L f)),
                (''time'', PInt (full_time f)),
                (''request'', PDict req),
                (''response'', PDict resp),
                (''cache'', PDict []),
                (''timings'', PDict (map (\<lambda>(k, v). (k, PInt v)) (timings f)))]))"

text \<open>
  Line 80: \<^verbatim>\<open>HAR["log"]["entries"].append\<close> is looked up first, then the argument is
  built, then the entry is appended.  An exception leaves \<^verbatim>\<open>HAR\<close> as it was.
\<close>

definition response :: "host \<Rightarrow> flow \<Rightarrow> pydict \<Rightarrow> error option \<times> pydict" where
  "response L f HAR =
     (case map_of HAR ''log'' of
        None \<Rightarrow> (Some KeyError, HAR)
      | Some (PDict lg) \<Rightarrow>
          (case map_of lg ''entries'' of
             None \<Rightarrow> (Some KeyError, HAR)
           | Some (PList es) \<Rightarrow>
               (case entry L f of
                  Inl e \<Rightarrow> (Some e, HAR)
                | Inr ent \<Rightarrow>
                    (None, AList.update ''log''
                       (PDict (AList.update ''entries'' (PList (es @ [PDict ent])) lg)) HAR))
           | Some _ \<Rightarrow> (Some AttributeError, HAR))
      | Some _ \<Rightarrow> (Some TypeError, HAR))"

text \<open>The hook called for each flow of a list in turn; the first exception stops the run.\<close>

fun responses :: "host \<Rightarrow> flow list \<Rightarrow> pydict \<Rightarrow> error option \<times> pydict" where
  "responses L [] HAR = (None, HAR)"
| "responses L (f # fs) HAR =
     (case response L f HAR of
        (None, HAR') \<Rightarrow> responses L fs HAR'
      | (Some e, HAR') \<Rightarrow> (Some e, HAR'))"

subsection \<open>\<^verbatim>\<open>done\<close> (lines 113 to 124)\<close>



subsection \<open>Reading the document, and inputs to run the hooks on\<close>

text \<open>\<^verbatim>\<open>HAR["log"]["entries"]\<close>, the list line 80 appends to, when it is there.\<close>

definition log_entries :: "pydict \<Rightarrow> pyval list option" where
  "log_entries HAR =
     (case map_of HAR ''log'' of
        Some (PDict lg) \<Rightarrow> (case map_of lg ''entries'' of Some (PList es) \<Rightarrow> Some es | _ \<Rightarrow> None)
      | _ \<Rightarrow> None)"

text \<open>\<^verbatim>\<open>HAR["log"][k]\<close>, when it is there.\<close>

definition log_field :: "pydict \<Rightarrow> string \<Rightarrow> pyval option" where
  "log_field HAR k = (case map_of HAR ''log'' of Some (PDict lg) \<Rightarrow> map_of lg k | _ \<Rightarrow> None)"

text \<open>
  A host for the examples: \<^verbatim>\<open>group_cookies\<close> gives every request cookie an empty attribute
  map, and no cookie has an expiration time; the renderers return fixed strings.
\<close>

definition sample_host :: host where
  "sample_host =
     \<lparr>MITMPROXY = ''0.18'',
      group_cookies = map (\<lambda>(n, v). (n, v, Map.empty)),
      get_expiration_ts = (\<lambda>a. None),
      headers_str = (\<lambda>h. concat (map (\<lambda>(k, v). k @ '': '' @ v @ ''; '') (nv_items h))),
      headers_get = (\<lambda>h k d. case map_of (nv_items h) k of Some v \<Rightarrow> v | None \<Rightarrow> d),
      local_offset = (\<lambda>t. 0),
      isoformat = (\<lambda>dt. ''1970-01-01T00:00:10+00:00''),
      pformat = (\<lambda>d. ''{...}''),
      json_dumps = (\<lambda>d n. ''{}'')\<rparr>"

text \<open>
  A flow without cookies: the request is sent from second 10 to 10.25, the response
  starts at once and ends at 11.5; its body is five bytes long.
\<close>

definition sample_flow :: flow where
  "sample_flow =
     \<lparr>flow_request =
        \<lparr>timestamp_start = 10, timestamp_end = 10.25, http_version = ''HTTP/1.1'',
         headers = \<lparr>fields_attr = Some [(''Host'', ''example.org'')], items_method = None,
                    truthy = True\<rparr>,
         content = '''', req_method = ''GET'', url = ''http://example.org/'', query = None,
         req_cookies_fields = []\<rparr>,
      flow_response =
        \<lparr>timestamp_start = 10.25, timestamp_end = 11.5, http_version = ''HTTP/1.1'',
         headers = \<lparr>fields_attr = Some [(''Content-Type'', ''text/plain'')], items_method = None,
                    truthy = True\<rparr>,
         content = ''hello'', status_code = 200, reason = ''OK'',
         resp_cookies_fields = []\<rparr>\<rparr>"


text \<open>The same flow with a response that sets one cookie, \<^verbatim>\<open>Set-Cookie: sid=abc; Path=/; Secure\<close>.\<close>

definition cookie_flow :: flow where
  "cookie_flow =
     sample_flow\<lparr>flow_response := (flow_response sample_flow)
       \<lparr>resp_cookies_fields :=
          [(''sid'', \<lparr>cvalue = ''abc'', cattrs = [''path'' \<mapsto> ''/'', ''secure'' \<mapsto> '''']\<rparr>)]\<rparr>\<rparr>"

section \<open>Properties\<close>

subsection \<open>\<^verbatim>\<open>start\<close>\<close>

lemma dict_update_start_document:
  "dict_update HAR_initial (start_document L) = start_document L"
  by (simp add: dict_update_def HAR_initial_def start_document_def)

text \<open>
  C5.  \<^verbatim>\<open>start\<close> raises \<^verbatim>\<open>ValueError\<close> with the usage message, and leaves \<^verbatim>\<open>HAR\<close> as it
  was, exactly when the script was not given one argument (\<open>tl argv\<close> is the arguments
  after the script's name).  Given one argument it returns and has stored the key \<^verbatim>\<open>log\<close>;
  started on the empty \<^verbatim>\<open>HAR\<close> of line 18, the document is then
  \<^verbatim>\<open>{log: {version: "1.2", creator: {name, version, comment}, entries: []}}\<close>.
\<close>

theorem start_argument_check:
  "start L argv HAR =
     (if length (tl argv) = 1 then (None, dict_update HAR (start_document L))
      else (Some (ValueError usage), HAR))
   \<and> start L argv HAR_initial =
     (if length (tl argv) = 1
      then (None,
        [(''log'', PDict
           [(''version'', PStr ''1.2''),
            (''creator'', PDict
               [(''name'', PStr ''mitmproxy har_dump''),
                (''version'', PStr ''0.1''),
                (''comment'', PStr (''mitmproxy version '' @ MITMPROXY L))]),
            (''entries'', PList [])])])
      else (Some (ValueError usage), []))"
proof -
  have "(length argv \<noteq> 2) = (length (tl argv) \<noteq> 1)"
    by (cases argv) auto
  then show ?thesis
    by (simp add: start_def dict_update_start_document)
      (simp add: start_document_def HAR_initial_def)
qed

subsection \<open>\<^verbatim>\<open>name_value\<close>\<close>

text \<open>
  C10.  \<^verbatim>\<open>name_value\<close> asks for the attribute \<^verbatim>\<open>fields\<close> before the method \<^verbatim>\<open>items\<close>: for an
  object that has both, the result is the one of the object with the same \<^verbatim>\<open>fields\<close> and no
  \<^verbatim>\<open>items\<close>, that is the records of \<^verbatim>\<open>fields\<close> in order (the empty string when \<^verbatim>\<open>fields\<close> is
  empty), whatever \<^verbatim>\<open>items()\<close> returns; for an object that has neither, the result is the
  empty string.
\<close>

theorem name_value_fields_before_items:
  "name_value \<lparr>fields_attr = Some fs, items_method = Some its, truthy = b\<rparr>
     = name_value \<lparr>fields_attr = Some fs, items_method = None, truthy = b\<rparr>
   \<and> name_value \<lparr>fields_attr = Some fs, items_method = Some its, truthy = b\<rparr>
     = (if fs = [] then PStr ''''
        else PList (map (\<lambda>(k, v). PDict [(''name'', PStr k), (''value'', PStr v)]) fs))
   \<and> name_value \<lparr>fields_attr = None, items_method = None, truthy = b\<rparr> = PStr ''''"
  by (simp add: name_value_def nv_items_def)



subsection \<open>\<^verbatim>\<open>format_cookies\<close>\<close>

text \<open>
  The loop body reaches line 152 for the first triple and fails there, so the function
  returns only for an empty iterable.
\<close>

lemma format_cookies_Nil: "format_cookies L [] = Inr []"
  by (simp add: format_cookies_def)

lemma format_cookies_Cons: "format_cookies L (c # cs) = Inl AttributeError"
  by (cases c) (simp add: format_cookies_def)

lemma format_cookies_cases:
  "format_cookies L cs = (if cs = [] then Inr [] else Inl AttributeError)"
  by (cases cs) (simp_all add: format_cookies_Nil format_cookies_Cons)

text \<open>
  What the loop body computes when the name \<^verbatim>\<open>cookies\<close> stands for the module, as the
  call at line 152 expects: the dictionary holds \<^verbatim>\<open>name\<close> and \<^verbatim>\<open>value\<close>, the two flags as
  booleans that tell whether the key is in the attribute map, \<^verbatim>\<open>path\<close>, \<^verbatim>\<open>domain\<close> and
  \<^verbatim>\<open>comment\<close> exactly when the attribute map has them, and \<^verbatim>\<open>expires\<close> exactly when
  \<^verbatim>\<open>get_expiration_ts\<close> returns a timestamp other than 0.
\<close>

lemma map_of_copy_attrs:
  "map_of (copy_attrs a d) k =
     (if k \<in> {''path'', ''domain'', ''comment''} \<and> a k \<noteq> None then map_option PStr (a k) else map_of d k)"
  by (auto simp add: copy_attrs_def update_conv' split: option.splits)

lemma map_of_bool_attrs:
  "map_of (bool_attrs a d) k =
     (if k \<in> {''httpOnly'', ''secure''} then Some (PBool (k \<in> dom a)) else map_of d k)"
  by (auto simp add: bool_attrs_def update_conv')

lemma map_of_set_expires:
  "k \<noteq> ''expires'' \<Longrightarrow> map_of (set_expires L g a d) k = map_of d k"
  by (auto simp add: set_expires_def update_conv' split: option.splits)

lemma expires_set_expires:
  "map_of d ''expires'' = None \<Longrightarrow>
   (map_of (set_expires L g a d) ''expires'' \<noteq> None) = (\<exists>t. g a = Some t \<and> t \<noteq> 0)"
  by (auto simp add: set_expires_def update_conv' split: option.splits)

lemma cookie_har_of_module:
  "cookie_har_of L Module_cookies (n, v, a)
     = Inr (PDict (set_expires L (get_expiration_ts L) a
         (bool_attrs a (copy_attrs a [(''name'', PStr n), (''value'', PStr v)]))))"
  by (simp add: Let_def)

lemma cookie_har_of_module_keys:
  assumes "cookie_har_of L Module_cookies (n, v, a) = Inr (PDict d)"
  shows "map_of d ''name'' = Some (PStr n)
    \<and> map_of d ''value'' = Some (PStr v)
    \<and> map_of d ''httpOnly'' = Some (PBool (''httpOnly'' \<in> dom a))
    \<and> map_of d ''secure'' = Some (PBool (''secure'' \<in> dom a))
    \<and> map_of d ''path'' = map_option PStr (a ''path'')
    \<and> map_of d ''domain'' = map_option PStr (a ''domain'')
    \<and> map_of d ''comment'' = map_option PStr (a ''comment'')
    \<and> (map_of d ''expires'' \<noteq> None) = (\<exists>t. get_expiration_ts L a = Some t \<and> t \<noteq> 0)"
proof -
  let ?d0 = "bool_attrs a (copy_attrs a [(''name'', PStr n), (''value'', PStr v)])"
  have d: "d = set_expires L (get_expiration_ts L) a ?d0"
    using assms by (simp only: cookie_har_of_module sum.inject pyval.inject)
  have "map_of ?d0 ''expires'' = None"
    by (simp add: map_of_bool_attrs map_of_copy_attrs)
  then have "(map_of d ''expires'' \<noteq> None) = (\<exists>t. get_expiration_ts L a = Some t \<and> t \<noteq> 0)"
    unfolding d by (rule expires_set_expires)
  then show ?thesis
    unfolding d
    by (simp add: map_of_set_expires map_of_bool_attrs map_of_copy_attrs)
qed

lemma cookie_har_of_module_path_secure:
  assumes "get_expiration_ts L [''path'' \<mapsto> p, ''secure'' \<mapsto> s] = None"
  shows "cookie_har_of L Module_cookies (n, v, [''path'' \<mapsto> p, ''secure'' \<mapsto> s])
     = Inr (PDict [(''name'', PStr n), (''value'', PStr v), (''path'', PStr p),
                   (''httpOnly'', PBool False), (''secure'', PBool True)])"
  using assms by (simp add: copy_attrs_def bool_attrs_def set_expires_def)

text \<open>
  C3.  Called with one cookie whose attribute map has exactly \<^verbatim>\<open>path\<close> and \<^verbatim>\<open>secure\<close>,
  \<^verbatim>\<open>format_cookies\<close> raises \<^verbatim>\<open>AttributeError\<close> at line 152 and returns no record.  The
  record \<^verbatim>\<open>{name, value, path, httpOnly: false, secure: true}\<close> is what the loop body has
  built for this cookie when it reaches that line (lemma \<open>cookie_har_of_module_path_secure\<close>).
\<close>

theorem format_cookies_path_secure_raises:
  "format_cookies L [(''sid'', ''abc'', [''path'' \<mapsto> ''/'', ''secure'' \<mapsto> ''''])] = Inl AttributeError"
  by (simp add: format_cookies_def)

text \<open>
  C4.  Called with one cookie whose attribute map has \<^verbatim>\<open>expires\<close>, \<^verbatim>\<open>format_cookies\<close> raises
  \<^verbatim>\<open>AttributeError\<close> at line 152, whatever \<^verbatim>\<open>get_expiration_ts\<close> would compute: no record
  is returned, with or without \<^verbatim>\<open>expires\<close>.
\<close>

theorem format_cookies_expires_raises:
  "format_cookies L [(''sid'', ''abc'', [''expires'' \<mapsto> ''Wed, 04 Nov 2026 12:00:00 GMT''])]
     = Inl AttributeError"
  by (simp add: format_cookies_def)

subsection \<open>\<^verbatim>\<open>response\<close>\<close>

text \<open>\<open>py_int\<close> drops the fraction: the sign of \<open>x\<close> and the whole part of its magnitude.\<close>

lemma py_int_truncates:
  "real_of_int (py_int x) = sgn x * real_of_int \<lfloor>\<bar>x\<bar>\<rfloor>"
  by (auto simp: py_int_def ceiling_def sgn_if abs_if)


text \<open>The entry is built exactly for the flows without cookies; \<^verbatim>\<open>AttributeError\<close> is the
  only exception of the construction.\<close>

lemma entry_returns_iff:
  "(\<exists>e. entry L f = Inr e)
     = (group_cookies L (req_cookies_fields (flow_request f)) = [] \<and> resp_cookies_fields (flow_response f) = [])"
  by (simp add: entry_def request_block_def response_block_def format_request_cookies_def
      format_response_cookies_def format_cookies_cases Let_def)

lemma entry_raises:
  "entry L f = Inl err \<Longrightarrow> err = AttributeError"
  by (auto simp add: entry_def request_block_def response_block_def format_request_cookies_def
      format_response_cookies_def format_cookies_cases Let_def split: if_splits sum.splits)

lemma entry_AttributeError_iff:
  "(entry L f = Inl AttributeError)
     = (group_cookies L (req_cookies_fields (flow_request f)) \<noteq> [] \<or> resp_cookies_fields (flow_response f) \<noteq> [])"
proof (cases "entry L f")
  case (Inl err)
  with entry_raises [OF Inl] entry_returns_iff [of L f] show ?thesis by auto
next
  case (Inr e)
  with entry_returns_iff [of L f] show ?thesis by auto
qed

lemma entry_timings:
  assumes "entry L f = Inr e"
  shows "map_of e ''timings'' = Some (PDict (map (\<lambda>(k, v). (k, PInt v)) (timings f)))
       \<and> map_of e ''time'' = Some (PInt (full_time f))
       \<and> map_of e ''cache'' = Some (PDict [])"
  using assms by (auto simp: entry_def split: sum.splits)

lemma entry_content:
  assumes "entry L f = Inr e"
  shows "\<exists>resp cont. map_of e ''response'' = Some (PDict resp)
      \<and> map_of resp ''content'' = Some (PDict cont)
      \<and> map_of cont ''compression'' = Some (PInt 0)
      \<and> map_of cont ''size'' = Some (PInt (int (length (content (flow_response f)))))
      \<and> map_of resp ''bodySize'' = Some (PInt (int (length (content (flow_response f)))))"
  using assms
  by (auto simp add: entry_def response_block_def Let_def response_body_size_def
       response_body_compression_def response_body_decoded_size_def split: sum.splits)

text \<open>What a call of the hook that returns has done.\<close>

lemma response_returnsD:
  assumes "response L f HAR = (None, HAR')"
  shows "\<exists>lg es e. map_of HAR ''log'' = Some (PDict lg) \<and> map_of lg ''entries'' = Some (PList es)
           \<and> entry L f = Inr e
           \<and> HAR' = AList.update ''log'' (PDict (AList.update ''entries'' (PList (es @ [PDict e])) lg)) HAR"
  using assms
  by (auto simp: response_def split: option.splits pyval.splits sum.splits)

lemma log_entries_update:
  "log_entries (AList.update ''log'' (PDict (AList.update ''entries'' (PList xs) lg)) HAR) = Some xs"
  by (simp add: log_entries_def update_conv')

lemma log_entries_SomeD:
  "log_entries HAR = Some es \<Longrightarrow>
   \<exists>lg. map_of HAR ''log'' = Some (PDict lg) \<and> map_of lg ''entries'' = Some (PList es)"
  by (auto simp: log_entries_def split: option.splits pyval.splits)

lemma response_returns_entriesD:
  assumes "response L f HAR = (None, HAR')"
  shows "\<exists>es e. log_entries HAR = Some es \<and> entry L f = Inr e \<and> log_entries HAR' = Some (es @ [PDict e])"
proof -
  from response_returnsD [OF assms] obtain lg es e where
    h: "map_of HAR ''log'' = Some (PDict lg)" "map_of lg ''entries'' = Some (PList es)"
       "entry L f = Inr e"
       "HAR' = AList.update ''log'' (PDict (AList.update ''entries'' (PList (es @ [PDict e])) lg)) HAR"
    by blast
  have "log_entries HAR = Some es" using h(1,2) by (simp add: log_entries_def)
  moreover have "log_entries HAR' = Some (es @ [PDict e])" using h(4) by (simp add: log_entries_update)
  ultimately show ?thesis using h(3) by blast
qed



text \<open>
  C8.  The response body size is the byte length of the response body and the compression
  is 0; when \<^verbatim>\<open>response\<close> returns, the entry it appended holds in its response block a
  content block with \<^verbatim>\<open>compression\<close> 0 and \<^verbatim>\<open>size\<close> the byte length of the body, the same
  number under \<^verbatim>\<open>bodySize\<close>, and the empty dictionary under \<^verbatim>\<open>cache\<close>.
\<close>

theorem response_content_sizes:
  "response_body_size f = int (length (content (flow_response f)))
   \<and> response_body_compression f = 0
   \<and> (response L f HAR = (None, HAR') \<longrightarrow>
       (\<exists>es e resp cont. log_entries HAR' = Some (es @ [PDict e])
          \<and> map_of e ''response'' = Some (PDict resp)
          \<and> map_of resp ''content'' = Some (PDict cont)
          \<and> map_of cont ''compression'' = Some (PInt 0)
          \<and> map_of cont ''size'' = Some (PInt (int (length (content (flow_response f)))))
          \<and> map_of resp ''bodySize'' = Some (PInt (int (length (content (flow_response f)))))
          \<and> map_of e ''cache'' = Some (PDict [])))"
proof -
  have hook: "\<exists>es e resp cont. log_entries HAR' = Some (es @ [PDict e])
          \<and> map_of e ''response'' = Some (PDict resp)
          \<and> map_of resp ''content'' = Some (PDict cont)
          \<and> map_of cont ''compression'' = Some (PInt 0)
          \<and> map_of cont ''size'' = Some (PInt (int (length (content (flow_response f)))))
          \<and> map_of resp ''bodySize'' = Some (PInt (int (length (content (flow_response f)))))
          \<and> map_of e ''cache'' = Some (PDict [])"
    if ret: "response L f HAR = (None, HAR')"
  proof -
    from response_returns_entriesD [OF ret] obtain es e where
      h: "entry L f = Inr e" "log_entries HAR' = Some (es @ [PDict e])" by blast
    from entry_content [OF h(1)] obtain resp cont where
      c: "map_of e ''response'' = Some (PDict resp)"
         "map_of resp ''content'' = Some (PDict cont)"
         "map_of cont ''compression'' = Some (PInt 0)"
         "map_of cont ''size'' = Some (PInt (int (length (content (flow_response f)))))"
         "map_of resp ''bodySize'' = Some (PInt (int (length (content (flow_response f)))))"
      by blast
    have "map_of e ''cache'' = Some (PDict [])"
      using entry_timings [OF h(1)] by simp
    with h(2) c show ?thesis by blast
  qed
  then show ?thesis
    by (simp add: response_body_size_def response_body_compression_def
        response_body_decoded_size_def)
qed

theorem response_content_sizes_witness:
  "\<exists>H es e resp cont. response sample_host sample_flow (start_document sample_host) = (None, H)
      \<and> log_entries H = Some (es @ [PDict e])
      \<and> map_of e ''response'' = Some (PDict resp)
      \<and> map_of resp ''content'' = Some (PDict cont)
      \<and> map_of cont ''compression'' = Some (PInt 0)
      \<and> map_of cont ''size'' = Some (PInt 5)
      \<and> map_of resp ''bodySize'' = Some (PInt 5)
      \<and> map_of e ''cache'' = Some (PDict [])"
proof -
  have "\<exists>e. entry sample_host sample_flow = Inr e"
    by (simp add: entry_returns_iff sample_host_def sample_flow_def)
  then obtain H where r: "response sample_host sample_flow (start_document sample_host) = (None, H)"
    by (auto simp: response_def start_document_def)
  show ?thesis
    using response_content_sizes [of sample_flow sample_host "start_document sample_host" H] r
    by (simp add: sample_flow_def)
qed

text \<open>
  For a flow without cookies, on a document that has its entry list, the hook returns, has
  appended the one entry of the flow, and has changed no other key of \<^verbatim>\<open>HAR\<close> or of
  \<^verbatim>\<open>HAR["log"]\<close>; a run over such flows appends their entries in the order of the calls.  A
  call that raises leaves \<^verbatim>\<open>HAR\<close> as it was, and every flow with a cookie raises.
\<close>

lemma response_appends_entry:
  assumes "log_entries HAR = Some es" and "entry L f = Inr e"
  shows "\<exists>HAR'. response L f HAR = (None, HAR') \<and> log_entries HAR' = Some (es @ [PDict e])"
proof -
  from log_entries_SomeD [OF assms(1)] obtain lg where
    "map_of HAR ''log'' = Some (PDict lg)" "map_of lg ''entries'' = Some (PList es)" by blast
  then show ?thesis using assms(2)
    by (simp add: response_def log_entries_update)
qed

lemma response_frame:
  assumes "response L f HAR = (r, HAR')"
  shows "k \<noteq> ''log'' \<Longrightarrow> map_of HAR' k = map_of HAR k"
    and "k \<noteq> ''entries'' \<Longrightarrow> log_field HAR' k = log_field HAR k"
  using assms
  by (auto simp: response_def log_field_def update_conv' split: option.splits pyval.splits sum.splits)

lemma responses_in_order:
  assumes "log_entries HAR = Some es" and "map (entry L) fs = map Inr ents"
  shows "\<exists>HAR'. responses L fs HAR = (None, HAR') \<and> log_entries HAR' = Some (es @ map PDict ents)"
  using assms
proof (induction fs arbitrary: HAR es ents)
  case Nil
  then show ?case by simp
next
  case (Cons f fs)
  from Cons.prems(2) obtain e ents' where
    ents: "ents = e # ents'" "entry L f = Inr e" "map (entry L) fs = map Inr ents'"
    by (cases ents) auto
  from response_appends_entry [OF Cons.prems(1) ents(2)] obtain H1 where
    h1: "response L f HAR = (None, H1)" "log_entries H1 = Some (es @ [PDict e])" by blast
  from Cons.IH [OF h1(2) ents(3)] obtain H2 where
    "responses L fs H1 = (None, H2)" "log_entries H2 = Some ((es @ [PDict e]) @ map PDict ents')"
    by blast
  then show ?case using h1(1) ents(1) by simp
qed

lemma response_raises_unchanged:
  "response L f HAR = (Some err, HAR') \<Longrightarrow> HAR' = HAR"
  by (auto simp: response_def split: option.splits pyval.splits sum.splits)

lemma response_raises_on_cookies:
  assumes "log_entries HAR = Some es"
    and "group_cookies L (req_cookies_fields (flow_request f)) \<noteq> [] \<or> resp_cookies_fields (flow_response f) \<noteq> []"
  shows "response L f HAR = (Some AttributeError, HAR)"
proof -
  from log_entries_SomeD [OF assms(1)] obtain lg where
    "map_of HAR ''log'' = Some (PDict lg)" "map_of lg ''entries'' = Some (PList es)" by blast
  moreover have "entry L f = Inl AttributeError"
    using assms(2) by (simp add: entry_AttributeError_iff)
  ultimately show ?thesis by (simp add: response_def)
qed

text \<open>
  C7.  Called right after \<^verbatim>\<open>start\<close> for the flow \<open>cookie_flow\<close>, whose response sets one
  cookie, \<^verbatim>\<open>response\<close> raises \<^verbatim>\<open>AttributeError\<close> and appends nothing: the entry list is empty
  before the call and the document is unchanged after it.
\<close>

theorem response_cookie_flow_raises:
  "log_entries (start_document L) = Some []
   \<and> response L cookie_flow (start_document L) = (Some AttributeError, start_document L)"
proof -
  have le: "log_entries (start_document L) = Some []"
    by (simp add: log_entries_def start_document_def)
  have "resp_cookies_fields (flow_response cookie_flow) \<noteq> []"
    by (simp add: cookie_flow_def)
  with response_raises_on_cookies [OF le] le show ?thesis by blast
qed

subsection \<open>\<^verbatim>\<open>done\<close>\<close>



end
